theory Spec2Isabelle
  imports Complex_Main "HOL-Library.AList"
begin

section \<open>Python values\<close>

text \<open>
  The loader of \<^verbatim>\<open>src/data_loader.py\<close> works on what \<^verbatim>\<open>json.loads\<close> returns and on
  \<^verbatim>\<open>np.nan\<close>, its default for an absent field. A value is one of Python's \<^verbatim>\<open>None\<close>,
  the float NaN, a bool, a number, a string, a list or a dict. Numbers are idealised as
  reals (float rounding and overflow are not modelled); a dict is the association list of
  its items, looked up with \<open>map_of\<close>. Strings are byte strings, taken as ASCII.
\<close>

datatype pyval =
    PNone
  | PNaN
  | PBool bool
  | PNum real
  | PStr string
  | PList "pyval list"
  | PDict "(string \<times> pyval) list"

type_synonym pydict = "(string \<times> pyval) list"

text \<open>
  The exceptions the loader can meet. \<open>Unsupported\<close> stands for a pandas operation on
  cells whose outcome depends on pandas' dtype rules, which are outside the model.
\<close>

datatype pyerr =
    TypeError
  | AttributeError
  | KeyError
  | IndexError
  | JSONDecodeError
  | NotADirectoryError
  | Unsupported

text \<open>\<^verbatim>\<open>pd.isna\<close>: \<^verbatim>\<open>None\<close> and NaN are the missing values.\<close>

definition isna :: "pyval \<Rightarrow> bool" where
  "isna v = (v = PNone \<or> v = PNaN)"

text \<open>Truth value of an object, as \<^verbatim>\<open>if not data\<close> and \<^verbatim>\<open>x if data.get(..) else y\<close> test it.\<close>

fun truthy :: "pyval \<Rightarrow> bool" where
  "truthy PNone = False"
| "truthy PNaN = True"
| "truthy (PBool b) = b"
| "truthy (PNum r) = (r \<noteq> 0)"
| "truthy (PStr s) = (s \<noteq> [])"
| "truthy (PList xs) = (xs \<noteq> [])"
| "truthy (PDict d) = (d \<noteq> [])"

text \<open>\<^verbatim>\<open>len(v)\<close>: defined on strings, lists and dicts, a \<^verbatim>\<open>TypeError\<close> otherwise.\<close>

fun py_len :: "pyval \<Rightarrow> pyerr + nat" where
  "py_len (PStr s) = Inr (length s)"
| "py_len (PList xs) = Inr (length xs)"
| "py_len (PDict d) = Inr (length d)"
| "py_len _ = Inl TypeError"

text \<open>\<^verbatim>\<open>v[-1]\<close>.\<close>

fun py_last :: "pyval \<Rightarrow> pyerr + pyval" where
  "py_last (PList xs) = (if xs = [] then Inl IndexError else Inr (last xs))"
| "py_last (PStr s) = (if s = [] then Inl IndexError else Inr (PStr [last s]))"
| "py_last (PDict d) = Inl KeyError"
| "py_last _ = Inl TypeError"

text \<open>The objects \<^verbatim>\<open>sum(v)\<close> iterates over: a dict yields its keys, a string its characters.\<close>

fun py_iter :: "pyval \<Rightarrow> pyerr + pyval list" where
  "py_iter (PList xs) = Inr xs"
| "py_iter (PStr s) = Inr (map (\<lambda>c. PStr [c]) s)"
| "py_iter (PDict d) = Inr (map (\<lambda>kv. PStr (fst kv)) d)"
| "py_iter _ = Inl TypeError"

text \<open>
  \<^verbatim>\<open>acc + v\<close> where \<open>acc\<close> is the running total of \<^verbatim>\<open>sum\<close>, a number or NaN: a bool counts
  as 0 or 1, NaN absorbs, anything else is a \<^verbatim>\<open>TypeError\<close>.
\<close>

fun as_number :: "pyval \<Rightarrow> pyval option" where
  "as_number (PNum r) = Some (PNum r)"
| "as_number (PBool b) = Some (PNum (if b then 1 else 0))"
| "as_number PNaN = Some PNaN"
| "as_number _ = None"

definition py_add :: "pyval \<Rightarrow> pyval \<Rightarrow> pyerr + pyval" where
  "py_add acc v =
     (case (as_number acc, as_number v) of
        (Some (PNum x), Some (PNum y)) \<Rightarrow> Inr (PNum (x + y))
      | (Some _, Some _) \<Rightarrow> Inr PNaN
      | _ \<Rightarrow> Inl TypeError)"

fun py_sum_from :: "pyval \<Rightarrow> pyval list \<Rightarrow> pyerr + pyval" where
  "py_sum_from acc [] = Inr acc"
| "py_sum_from acc (v # vs) =
     (case py_add acc v of Inl e \<Rightarrow> Inl e | Inr acc' \<Rightarrow> py_sum_from acc' vs)"

definition py_sum :: "pyval \<Rightarrow> pyerr + pyval" where
  "py_sum v = (case py_iter v of Inl e \<Rightarrow> Inl e | Inr xs \<Rightarrow> py_sum_from (PNum 0) xs)"

section \<open>String operations\<close>

definition startswith :: "string \<Rightarrow> string \<Rightarrow> bool" where
  "startswith s p = (take (length p) s = p)"

definition endswith :: "string \<Rightarrow> string \<Rightarrow> bool" where
  "endswith s p = (length p \<le> length s \<and> drop (length s - length p) s = p)"

text \<open>\<^verbatim>\<open>sub in s\<close>.\<close>

fun contains :: "string \<Rightarrow> string \<Rightarrow> bool" where
  "contains sub [] = (sub = [])"
| "contains sub (c # cs) = (take (length sub) (c # cs) = sub \<or> contains sub cs)"

text \<open>\<^verbatim>\<open>s.replace(old, new)\<close>: every occurrence, left to right, without overlap.\<close>

fun str_replace :: "string \<Rightarrow> string \<Rightarrow> string \<Rightarrow> string" where
  "str_replace old new [] = []"
| "str_replace old new (c # cs) =
     (if old \<noteq> [] \<and> take (length old) (c # cs) = old
      then new @ str_replace old new (drop (length old - 1) cs)
      else c # str_replace old new cs)"

section \<open>The tolerant JSON parser\<close>

text \<open>
  \<^verbatim>\<open>\b\<close> of Python's \<^verbatim>\<open>re\<close>: a position with a word character on exactly one side.
  The start and the end of the text count as non-word. The word characters are those of
  ASCII texts, letters, digits and the underscore; Python counts the letters and digits
  beyond ASCII too, so the model is that of the code on ASCII texts only.
\<close>

definition is_word :: "char \<Rightarrow> bool" where
  "is_word c = (let n = (of_char c :: nat) in
     (48 \<le> n \<and> n \<le> 57) \<or> (65 \<le> n \<and> n \<le> 90) \<or> (97 \<le> n \<and> n \<le> 122) \<or> n = 95)"

definition boundary :: "char option \<Rightarrow> string \<Rightarrow> bool" where
  "boundary prev rest =
     ((case prev of None \<Rightarrow> False | Some c \<Rightarrow> is_word c) \<noteq>
      (case rest of [] \<Rightarrow> False | c # _ \<Rightarrow> is_word c))"

text \<open>
  A pattern \<^verbatim>\<open>\btok\b\<close> tried at one position: \<open>prev\<close> is the character before the
  position, \<open>rest\<close> the text from it. The result is the length of the match.
\<close>

definition match_token :: "string \<Rightarrow> char option \<Rightarrow> string \<Rightarrow> nat option" where
  "match_token tok prev rest =
     (if boundary prev rest \<and> take (length tok) rest = tok
         \<and> boundary (Some (last tok)) (drop (length tok) rest)
      then Some (length tok) else None)"

text \<open>
  \<^verbatim>\<open>\b-?Inf\b\<close>: the boundary is tested before the optional sign, which is tried first
  (greedy) and given up when the rest does not match.
\<close>

definition match_opt_minus_Inf :: "char option \<Rightarrow> string \<Rightarrow> nat option" where
  "match_opt_minus_Inf prev rest =
     (case match_token ''-Inf'' prev rest of
        Some n \<Rightarrow> Some n
      | None \<Rightarrow> match_token ''Inf'' prev rest)"

text \<open>
  \<^verbatim>\<open>re.sub(pattern, repl, text)\<close> for a pattern that matches no empty string: scan from
  the left, replace a match and go on after it. Boundaries are those of the original text.
\<close>

fun re_sub :: "(char option \<Rightarrow> string \<Rightarrow> nat option) \<Rightarrow> string \<Rightarrow> char option \<Rightarrow> string \<Rightarrow> string" where
  "re_sub m repl prev [] = []"
| "re_sub m repl prev (c # cs) =
     (case m prev (c # cs) of
        Some (Suc n) \<Rightarrow> repl @ re_sub m repl (Some ((c # cs) ! n)) (drop n cs)
      | _ \<Rightarrow> c # re_sub m repl (Some c) cs)"

definition fix_json_text :: "string \<Rightarrow> string" where
  "fix_json_text json_text =
     (let t1 = re_sub (match_token ''NaN'') ''null'' None json_text;
          t2 = re_sub (match_token ''Infinity'') ''null'' None t1;
          t3 = re_sub (match_token ''-Infinity'') ''null'' None t2;
          t4 = re_sub match_opt_minus_Inf ''null'' None t3
      in t4)"

text \<open>
  \<^verbatim>\<open>json.loads\<close> belongs to Python's library; it is the parameter \<open>loads\<close>, which returns
  the parsed value or fails.
\<close>

definition parse_custom_json :: "(string \<Rightarrow> pyerr + pyval) \<Rightarrow> string \<Rightarrow> pyerr + pyval" where
  "parse_custom_json loads json_text = loads (fix_json_text json_text)"

section \<open>The instance name\<close>

text \<open>
  \<^verbatim>\<open>re.sub(r'\.(txt|json)$', '', filename)\<close>: \<^verbatim>\<open>$\<close> holds at the end of the text and
  before a newline that ends it.
\<close>

definition strip_extension :: "string \<Rightarrow> string" where
  "strip_extension filename =
     (if endswith filename ''.txt'' then take (length filename - 4) filename
      else if endswith filename ''.json'' then take (length filename - 5) filename
      else if endswith filename (''.txt'' @ [CHR 0x0A]) then take (length filename - 5) filename @ [CHR 0x0A]
      else if endswith filename (''.json'' @ [CHR 0x0A]) then take (length filename - 6) filename @ [CHR 0x0A]
      else filename)"

definition extract_instance_name :: "string \<Rightarrow> string" where
  "extract_instance_name filename =
     (let base_name = strip_extension filename in
      if startswith base_name ''BACK_jy_'' then
        str_replace ''BACK_jy_'' [] base_name @ ''_BACK''
      else if endswith base_name ''_better'' then
        str_replace ''_better'' [] (str_replace ''jy_'' [] base_name) @ ''_better''
      else if startswith base_name ''jy_'' then
        str_replace ''jy_'' [] base_name
      else base_name)"

section \<open>Fields derived from the dataset name\<close>

definition datasets :: "string list" where
  "datasets =
     [''C1_numCust_25'', ''C1_numCust_50'', ''C1_numCust_100'',
      ''C2_numCust_100'',
      ''R1_numCust_50'', ''R1_numCust_100'',
      ''RC1_numCust_25'', ''RC1_numCust_50'', ''RC1_numCust_100'',
      ''RC2_numCust_25'', ''RC2_numCust_50'']"

definition base_conditions :: "string list" where
  "base_conditions =
     [''normal'', ''cuts_off_graphs_on'', ''cuts_off_graph_on'', ''no_ub_use_remove'',
      ''no_cuts_or_graphs'']"

definition num_cust_of :: "string \<Rightarrow> nat" where
  "num_cust_of dataset =
     (if contains ''100'' dataset then 100 else if contains ''50'' dataset then 50 else 25)"

text \<open>\<^verbatim>\<open>re.match(r'^([CR][12])', dataset)\<close>, and \<^verbatim>\<open>"Unknown"\<close> when it does not match.\<close>

definition instance_type_of :: "string \<Rightarrow> string" where
  "instance_type_of dataset =
     (case dataset of
        c1 # c2 # _ \<Rightarrow>
          if (c1 = CHR ''C'' \<or> c1 = CHR ''R'') \<and> (c2 = CHR ''1'' \<or> c2 = CHR ''2'')
          then [c1, c2] else ''Unknown''
      | _ \<Rightarrow> ''Unknown'')"

section \<open>The iteration table\<close>

text \<open>
  A \<^verbatim>\<open>DataFrame\<close> is the list of its columns in the order they were added, each with
  its name and its cells; \<^verbatim>\<open>pd.DataFrame()\<close> has no column. A cell holds the value
  it was given: pandas stores \<^verbatim>\<open>None\<close> in a numeric column as NaN, and both are missing
  for \<open>isna\<close>.
\<close>

type_synonym dataframe = "(string \<times> pyval list) list"

definition nrows :: "dataframe \<Rightarrow> nat" where
  "nrows df = (case df of [] \<Rightarrow> 0 | c # _ \<Rightarrow> length (snd c))"

definition df_empty :: "dataframe \<Rightarrow> bool" where
  "df_empty df = (df = [] \<or> nrows df = 0)"

definition column :: "dataframe \<Rightarrow> string \<Rightarrow> pyval list option" where
  "column df name = map_of df name"

text \<open>\<^verbatim>\<open>df[name] = cells\<close>: replaces the column of that name or adds it at the end.\<close>

definition set_column :: "string \<Rightarrow> pyval list \<Rightarrow> dataframe \<Rightarrow> dataframe" where
  "set_column name cells df = AList.update name cells df"

definition nan_column :: "nat \<Rightarrow> pyval list" where
  "nan_column iterations = replicate iterations PNaN"

definition core_arrays :: "string list" where
  "core_arrays =
     [''lblp_lower'', ''ub_lp'', ''did_compress'',
      ''lp_time_project'', ''lp_time_LB'', ''time_compress'']"

text \<open>
  The cells that \<^verbatim>\<open>results_df[array_name] = data[array_name]\<close> stores for a value of
  the right length: a list gives its elements, a string is a scalar and fills every row,
  and a dict is aligned on the row labels, which its string keys never equal, so that
  every row is missing.
\<close>

fun as_column :: "nat \<Rightarrow> pyval \<Rightarrow> pyerr + pyval list" where
  "as_column iterations (PList xs) = Inr xs"
| "as_column iterations (PStr s) = Inr (replicate iterations (PStr s))"
| "as_column iterations (PDict d) = Inr (nan_column iterations)"
| "as_column iterations _ = Inl TypeError"

definition core_column :: "pydict \<Rightarrow> nat \<Rightarrow> string \<Rightarrow> pyerr + pyval list" where
  "core_column data iterations array_name =
     (case map_of data array_name of
        None \<Rightarrow> Inr (nan_column iterations)
      | Some v \<Rightarrow>
          (case py_len v of
             Inl e \<Rightarrow> Inl e
           | Inr n \<Rightarrow>
               if n = iterations then as_column iterations v
               else Inr (nan_column iterations)))"

fun add_core_arrays :: "pydict \<Rightarrow> nat \<Rightarrow> string list \<Rightarrow> dataframe \<Rightarrow> pyerr + dataframe" where
  "add_core_arrays data iterations [] df = Inr df"
| "add_core_arrays data iterations (array_name # rest) df =
     (case core_column data iterations array_name of
        Inl e \<Rightarrow> Inl e
      | Inr cells \<Rightarrow> add_core_arrays data iterations rest (set_column array_name cells df))"

text \<open>\<^verbatim>\<open>item.get(key, np.nan) if isinstance(item, dict) else np.nan\<close>.\<close>

definition item_get :: "string \<Rightarrow> pyval \<Rightarrow> pyval" where
  "item_get key item =
     (case item of
        PDict d \<Rightarrow> (case map_of d key of Some v \<Rightarrow> v | None \<Rightarrow> PNaN)
      | _ \<Rightarrow> PNaN)"

text \<open>A field that is a list of the right length gives one cell for each item.\<close>

definition sub_field_column :: "pydict \<Rightarrow> nat \<Rightarrow> string \<Rightarrow> string \<Rightarrow> pyval list" where
  "sub_field_column data iterations field key =
     (case map_of data field of
        Some (PList items) \<Rightarrow>
          if length items = iterations then map (item_get key) items
          else nan_column iterations
      | _ \<Rightarrow> nan_column iterations)"

fun add_stage :: "pydict \<Rightarrow> nat \<Rightarrow> string \<times> string \<Rightarrow> dataframe \<Rightarrow> dataframe" where
  "add_stage data iterations (stage_name, suffix) df =
     set_column (suffix @ ''_ngGraph'')
       (sub_field_column data iterations stage_name ''ngGraph'')
       (set_column (suffix @ ''_timeGraph'')
          (sub_field_column data iterations stage_name ''timeGraph'') df)"

definition stages :: "(string \<times> string) list" where
  "stages =
     [(''prob_sizes_at_start'', ''start''),
      (''prob_sizes_after_compress'', ''compress''),
      (''prob_sizes_after_split'', ''split'')]"

definition add_stages :: "pydict \<Rightarrow> nat \<Rightarrow> dataframe \<Rightarrow> dataframe" where
  "add_stages data iterations df = fold (add_stage data iterations) stages df"

definition cut_fields :: "string list" where
  "cut_fields = [''tot_cut_value'', ''TOT_gen_cut'', ''tot_time_opt'', ''max_time_opt'']"

definition add_cuts :: "pydict \<Rightarrow> nat \<Rightarrow> dataframe \<Rightarrow> dataframe" where
  "add_cuts data iterations df =
     fold (\<lambda>key. set_column (''cut_'' @ key)
                    (sub_field_column data iterations ''cuttingPlaneBendInfo'' key))
       cut_fields df"

text \<open>
  \<^verbatim>\<open>(a.fillna(0) + b.fillna(0)).cumsum()\<close> on cells that are numbers or missing. On other
  cells the outcome depends on the dtypes pandas gave the two columns (two columns of
  bools are joined by \<^verbatim>\<open>or\<close>, a bool and a number are added), which the model leaves
  out as \<open>Unsupported\<close>.
\<close>

definition fillna0 :: "pyval \<Rightarrow> pyval" where
  "fillna0 v = (if isna v then PNum 0 else v)"

fun filled_sums :: "pyval list \<Rightarrow> pyval list \<Rightarrow> pyerr + real list" where
  "filled_sums (a # as) (b # bs) =
     (case (fillna0 a, fillna0 b) of
        (PNum x, PNum y) \<Rightarrow>
          (case filled_sums as bs of Inl e \<Rightarrow> Inl e | Inr zs \<Rightarrow> Inr ((x + y) # zs))
      | _ \<Rightarrow> Inl Unsupported)"
| "filled_sums _ _ = Inr []"

fun cumsum :: "real \<Rightarrow> real list \<Rightarrow> real list" where
  "cumsum acc [] = []"
| "cumsum acc (x # xs) = (acc + x) # cumsum (acc + x) xs"

definition add_cumulative_time :: "nat \<Rightarrow> dataframe \<Rightarrow> pyerr + dataframe" where
  "add_cumulative_time iterations df =
     (case (column df ''lp_time_LB'', column df ''lp_time_project'') of
        (Some lb, Some pr) \<Rightarrow>
          (case filled_sums lb pr of
             Inl e \<Rightarrow> Inl e
           | Inr zs \<Rightarrow> Inr (set_column ''cumulative_time'' (map PNum (cumsum 0 zs)) df))
      | _ \<Rightarrow> Inr (set_column ''cumulative_time'' (nan_column iterations) df))"

definition iteration_column :: "nat \<Rightarrow> pyval list" where
  "iteration_column iterations = map (\<lambda>i. PNum (real i)) [1 ..< iterations + 1]"

definition process_iteration_data :: "pydict \<Rightarrow> pyerr + dataframe" where
  "process_iteration_data data =
     (case map_of data ''lblp_lower'' of
        None \<Rightarrow> Inr []
      | Some v \<Rightarrow>
          (case py_len v of
             Inl e \<Rightarrow> Inl e
           | Inr iterations \<Rightarrow>
               if iterations = 0 then Inr []
               else
                 (case add_core_arrays data iterations core_arrays
                         [(''iteration'', iteration_column iterations)] of
                    Inl e \<Rightarrow> Inl e
                  | Inr df \<Rightarrow>
                      add_cumulative_time iterations
                        (add_cuts data iterations (add_stages data iterations df)))))"

section \<open>The summary record of a run\<close>

record run_summary =
  dataset :: string
  num_cust :: nat
  instance_type :: string
  condition :: string
  instance_name :: string
  root_lp :: pyval
  final_lb :: pyval
  ilp_objective :: pyval
  ilp_time :: pyval
  total_lp_time :: pyval
  iterations :: nat
  total_cuts :: pyval
  iteration_data :: dataframe

text \<open>\<^verbatim>\<open>data.get(key, default)\<close>.\<close>

definition dict_get :: "pydict \<Rightarrow> string \<Rightarrow> pyval \<Rightarrow> pyval" where
  "dict_get data key dflt = (case map_of data key of None \<Rightarrow> dflt | Some v \<Rightarrow> v)"

text \<open>
  \<^verbatim>\<open>data.get('lblp_lower', [np.nan])[-1] if data.get('lblp_lower') else np.nan\<close>
\<close>

definition final_lb_of :: "pydict \<Rightarrow> pyerr + pyval" where
  "final_lb_of data =
     (if truthy (dict_get data ''lblp_lower'' PNone)
      then py_last (dict_get data ''lblp_lower'' (PList [PNaN]))
      else Inr PNaN)"

text \<open>
  \<^verbatim>\<open>sum([sum(data.get('lp_time_LB', [])), sum(data.get('lp_time_project', []))])\<close>
\<close>

definition total_lp_time_of :: "pydict \<Rightarrow> pyerr + pyval" where
  "total_lp_time_of data =
     (case py_sum (dict_get data ''lp_time_LB'' (PList [])) of
        Inl e \<Rightarrow> Inl e
      | Inr a \<Rightarrow>
          (case py_sum (dict_get data ''lp_time_project'' (PList [])) of
             Inl e \<Rightarrow> Inl e
           | Inr b \<Rightarrow> py_sum (PList [a, b])))"

text \<open>
  \<^verbatim>\<open>cells.fillna(0).sum()\<close> on cells that are numbers, bools or missing; a bool counts
  as 0 or 1.
\<close>

fun filled_total :: "pyval list \<Rightarrow> pyerr + real" where
  "filled_total [] = Inr 0"
| "filled_total (c # cs) =
     (case fillna0 c of
        PNum x \<Rightarrow> (case filled_total cs of Inl e \<Rightarrow> Inl e | Inr t \<Rightarrow> Inr (x + t))
      | PBool b \<Rightarrow>
          (case filled_total cs of Inl e \<Rightarrow> Inl e | Inr t \<Rightarrow> Inr ((if b then 1 else 0) + t))
      | _ \<Rightarrow> Inl Unsupported)"

definition total_cuts_of :: "dataframe \<Rightarrow> pyerr + pyval" where
  "total_cuts_of iteration_table =
     (if \<not> df_empty iteration_table then
        (case column iteration_table ''cut_TOT_gen_cut'' of
           Some cells \<Rightarrow>
             (case filled_total cells of Inl e \<Rightarrow> Inl e | Inr t \<Rightarrow> Inr (PNum t))
         | None \<Rightarrow> Inr (PNum 0))
      else Inr (PNum 0))"

text \<open>
  The body of the loader's \<^verbatim>\<open>try\<close> from the extraction of the iteration data to the
  finished record, for a document that is a dict. The first exception ends it.
\<close>

definition build_record :: "string \<Rightarrow> string \<Rightarrow> string \<Rightarrow> pydict \<Rightarrow> pyerr + run_summary" where
  "build_record dataset_name condition_name file_name data =
     (case process_iteration_data data of
        Inl e \<Rightarrow> Inl e
      | Inr iteration_table \<Rightarrow>
     (case final_lb_of data of
        Inl e \<Rightarrow> Inl e
      | Inr last_lb \<Rightarrow>
     (case total_lp_time_of data of
        Inl e \<Rightarrow> Inl e
      | Inr lp_time \<Rightarrow>
     (case py_len (dict_get data ''lblp_lower'' (PList [])) of
        Inl e \<Rightarrow> Inl e
      | Inr n \<Rightarrow>
     (case total_cuts_of iteration_table of
        Inl e \<Rightarrow> Inl e
      | Inr cuts \<Rightarrow>
          Inr \<lparr> dataset = dataset_name,
                num_cust = num_cust_of dataset_name,
                instance_type = instance_type_of dataset_name,
                condition = condition_name,
                instance_name = extract_instance_name file_name,
                root_lp = dict_get data ''ROOT_LP_PRIOR_ADDING_CUTS'' PNaN,
                final_lb = last_lb,
                ilp_objective = dict_get data ''OUR_ilp_objective'' PNaN,
                ilp_time = dict_get data ''OUR_ilp_time'' PNaN,
                total_lp_time = lp_time,
                iterations = n,
                total_cuts = cuts,
                iteration_data = iteration_table \<rparr>)))))"

text \<open>
  A parsed document need not be a dict. On a list or a string the membership test of
  \<^verbatim>\<open>process_iteration_data\<close> works and the first \<^verbatim>\<open>data.get\<close> raises
  \<^verbatim>\<open>AttributeError\<close>; on a number or a bool the membership test raises \<^verbatim>\<open>TypeError\<close>.
\<close>

fun extract_run :: "string \<Rightarrow> string \<Rightarrow> string \<Rightarrow> pyval \<Rightarrow> pyerr + run_summary" where
  "extract_run dataset_name condition_name file_name (PDict d) =
     build_record dataset_name condition_name file_name d"
| "extract_run dataset_name condition_name file_name (PList xs) = Inl AttributeError"
| "extract_run dataset_name condition_name file_name (PStr s) = Inl AttributeError"
| "extract_run dataset_name condition_name file_name _ = Inl TypeError"

section \<open>The corpus loader\<close>

text \<open>
  What a path names: a regular file with its text (\<open>None\<close> when it cannot be read), a
  directory with its entries in the order the system lists them, or something else.
\<close>

datatype fsnode =
    RegFile "string option"
  | Directory "(string \<times> fsnode) list"
  | OtherNode

definition read_one_file :: "(string \<Rightarrow> pyerr + pyval) \<Rightarrow> fsnode \<Rightarrow> pyval" where
  "read_one_file loads node =
     (case node of
        RegFile (Some content) \<Rightarrow>
          (case parse_custom_json loads content of Inl e \<Rightarrow> PDict [] | Inr v \<Rightarrow> v)
      | _ \<Rightarrow> PDict [])"

text \<open>\<^verbatim>\<open>glob("jy_*")\<close> and \<^verbatim>\<open>glob("*.json")\<close>, in listing order.\<close>

definition glob_prefix :: "string \<Rightarrow> (string \<times> fsnode) list \<Rightarrow> (string \<times> fsnode) list" where
  "glob_prefix p entries = filter (\<lambda>e. startswith (fst e) p) entries"

definition glob_suffix :: "string \<Rightarrow> (string \<times> fsnode) list \<Rightarrow> (string \<times> fsnode) list" where
  "glob_suffix p entries = filter (\<lambda>e. endswith (fst e) p) entries"

text \<open>
  \<^verbatim>\<open>json_files = list(file_path.glob("*.json")) + list(file_path.glob("*.txt"))\<close>, of
  which the loader reads \<^verbatim>\<open>json_files[0]\<close>.
\<close>

definition json_files :: "(string \<times> fsnode) list \<Rightarrow> (string \<times> fsnode) list" where
  "json_files children = glob_suffix ''.json'' children @ glob_suffix ''.txt'' children"

definition after_read :: "string \<Rightarrow> string \<Rightarrow> string \<Rightarrow> pyval \<Rightarrow> pyerr + run_summary option" where
  "after_read dataset_name condition_name file_name data =
     (if \<not> truthy data then Inr None
      else
        (case extract_run dataset_name condition_name file_name data of
           Inl e \<Rightarrow> Inl e
         | Inr r \<Rightarrow> Inr (Some r)))"

text \<open>
  The body of the \<^verbatim>\<open>try\<close> for one entry: \<open>Inl\<close> is an exception, \<open>Inr None\<close> a
  \<^verbatim>\<open>continue\<close>, \<open>Inr (Some r)\<close> the record that is appended.
\<close>

definition process_entry ::
  "(string \<Rightarrow> pyerr + pyval) \<Rightarrow> string \<Rightarrow> string \<Rightarrow> string \<times> fsnode \<Rightarrow> pyerr + run_summary option" where
  "process_entry loads dataset_name condition_name entry =
     (case snd entry of
        RegFile content \<Rightarrow>
          after_read dataset_name condition_name (fst entry) (read_one_file loads (snd entry))
      | Directory children \<Rightarrow>
          (case json_files children of
             [] \<Rightarrow> Inr None
           | f # _ \<Rightarrow>
               after_read dataset_name condition_name (fst entry) (read_one_file loads (snd f)))
      | OtherNode \<Rightarrow> Inr None)"

fun load_files ::
  "(string \<Rightarrow> pyerr + pyval) \<Rightarrow> string \<Rightarrow> string \<Rightarrow> (string \<times> fsnode) list
     \<Rightarrow> run_summary list \<Rightarrow> run_summary list" where
  "load_files loads dataset_name condition_name [] all_results = all_results"
| "load_files loads dataset_name condition_name (entry # rest) all_results =
     (case process_entry loads dataset_name condition_name entry of
        Inl e \<Rightarrow> load_files loads dataset_name condition_name rest all_results
      | Inr None \<Rightarrow> load_files loads dataset_name condition_name rest all_results
      | Inr (Some r) \<Rightarrow> load_files loads dataset_name condition_name rest (all_results @ [r]))"

definition is_dir :: "fsnode \<Rightarrow> bool" where
  "is_dir node = (case node of Directory _ \<Rightarrow> True | _ \<Rightarrow> False)"

definition entries_of :: "fsnode \<Rightarrow> (string \<times> fsnode) list" where
  "entries_of node = (case node of Directory es \<Rightarrow> es | _ \<Rightarrow> [])"

fun load_conditions ::
  "(string \<Rightarrow> pyerr + pyval) \<Rightarrow> string \<Rightarrow> (string \<times> fsnode) list \<Rightarrow> string list
     \<Rightarrow> run_summary list \<Rightarrow> run_summary list" where
  "load_conditions loads dataset_name dataset_entries [] all_results = all_results"
| "load_conditions loads dataset_name dataset_entries (condition_name # rest) all_results =
     (case map_of dataset_entries condition_name of
        None \<Rightarrow> load_conditions loads dataset_name dataset_entries rest all_results
      | Some condition_dir \<Rightarrow>
          load_conditions loads dataset_name dataset_entries rest
            (load_files loads dataset_name condition_name
               (glob_prefix ''jy_'' (entries_of condition_dir)) all_results))"

text \<open>
  One dataset. A missing directory is skipped; \<^verbatim>\<open>iterdir\<close> on a path that is not a
  directory raises outside the \<^verbatim>\<open>try\<close>.
\<close>

fun load_datasets ::
  "(string \<Rightarrow> pyerr + pyval) \<Rightarrow> (string \<times> fsnode) list \<Rightarrow> string list
     \<Rightarrow> run_summary list \<Rightarrow> pyerr + run_summary list" where
  "load_datasets loads base_entries [] all_results = Inr all_results"
| "load_datasets loads base_entries (dataset_name # rest) all_results =
     (case map_of base_entries dataset_name of
        None \<Rightarrow> load_datasets loads base_entries rest all_results
      | Some (Directory dataset_entries) \<Rightarrow>
          (let available_conditions = map fst (filter (\<lambda>e. is_dir (snd e)) dataset_entries);
               conditions_to_process = filter (\<lambda>c. c \<in> set available_conditions) base_conditions
           in load_datasets loads base_entries rest
                (load_conditions loads dataset_name dataset_entries conditions_to_process
                   all_results))
      | Some _ \<Rightarrow> Inl NotADirectoryError)"

text \<open>
  The catalog, as the list of its rows; \<open>base\<close> is what the base path names, \<open>None\<close>
  when it does not exist.
\<close>

definition load_ablation_data ::
  "(string \<Rightarrow> pyerr + pyval) \<Rightarrow> fsnode option \<Rightarrow> pyerr + run_summary list" where
  "load_ablation_data loads base =
     (case base of
        None \<Rightarrow> Inr []
      | Some node \<Rightarrow> load_datasets loads (entries_of node) datasets [])"

section \<open>Notions used to state the properties\<close>

text \<open>
  A document is well formed when each core field is absent or a list and the cells of
  the two LP time lists are numbers or missing.
\<close>

fun numeric_cell :: "pyval \<Rightarrow> bool" where
  "numeric_cell (PNum r) = True"
| "numeric_cell PNone = True"
| "numeric_cell PNaN = True"
| "numeric_cell _ = False"

definition array_or_absent :: "pydict \<Rightarrow> string \<Rightarrow> bool" where
  "array_or_absent data key =
     (case map_of data key of None \<Rightarrow> True | Some (PList xs) \<Rightarrow> True | Some _ \<Rightarrow> False)"

definition numeric_array_or_absent :: "pydict \<Rightarrow> string \<Rightarrow> bool" where
  "numeric_array_or_absent data key =
     (case map_of data key of
        None \<Rightarrow> True
      | Some (PList xs) \<Rightarrow> list_all numeric_cell xs
      | Some _ \<Rightarrow> False)"

definition well_formed :: "pydict \<Rightarrow> bool" where
  "well_formed data =
     (list_all (array_or_absent data) core_arrays
      \<and> numeric_array_or_absent data ''lp_time_LB''
      \<and> numeric_array_or_absent data ''lp_time_project'')"

text \<open>
  The column the specification asks for: the source list when it is present with
  exactly \<open>n\<close> entries, and \<open>n\<close> missing values otherwise.
\<close>

definition source_or_missing :: "pydict \<Rightarrow> nat \<Rightarrow> string \<Rightarrow> pyval list" where
  "source_or_missing data n key =
     (case map_of data key of
        Some (PList ys) \<Rightarrow> if length ys = n then ys else nan_column n
      | _ \<Rightarrow> nan_column n)"

text \<open>
  The specification's wording of the final lower bound: the last entry that is not
  missing, and missing when there is none.
\<close>

definition last_non_missing :: "pyval list \<Rightarrow> pyval" where
  "last_non_missing xs =
     (case filter (\<lambda>v. \<not> isna v) xs of [] \<Rightarrow> PNaN | y # ys \<Rightarrow> last (y # ys))"

text \<open>
  A parser given by a table from texts to the values they parse to; every other text
  fails to parse. It stands for \<^verbatim>\<open>json.loads\<close> in the examples.
\<close>

definition loads_table :: "(string \<times> pyval) list \<Rightarrow> string \<Rightarrow> pyerr + pyval" where
  "loads_table table text = (case map_of table text of Some v \<Rightarrow> Inr v | None \<Rightarrow> Inl JSONDecodeError)"

text \<open>
  The file the loader reads for an entry, and the ways an entry fails: the file cannot be
  read, its text does not parse, or the body of the \<^verbatim>\<open>try\<close> raises.
\<close>

definition run_file :: "string \<times> fsnode \<Rightarrow> fsnode option" where
  "run_file entry =
     (case snd entry of
        RegFile content \<Rightarrow> Some (snd entry)
      | Directory children \<Rightarrow> (case json_files children of [] \<Rightarrow> None | f # _ \<Rightarrow> Some (snd f))
      | OtherNode \<Rightarrow> None)"

definition unreadable :: "fsnode \<Rightarrow> bool" where
  "unreadable node = (case node of RegFile (Some content) \<Rightarrow> False | _ \<Rightarrow> True)"

definition parse_failed :: "(string \<Rightarrow> pyerr + pyval) \<Rightarrow> fsnode \<Rightarrow> bool" where
  "parse_failed loads node =
     (case node of RegFile (Some content) \<Rightarrow> isl (parse_custom_json loads content) | _ \<Rightarrow> False)"

definition failed_entry ::
  "(string \<Rightarrow> pyerr + pyval) \<Rightarrow> string \<Rightarrow> string \<Rightarrow> string \<times> fsnode \<Rightarrow> bool" where
  "failed_entry loads dataset_name condition_name entry =
     ((case run_file entry of
         None \<Rightarrow> False
       | Some node \<Rightarrow> unreadable node \<or> parse_failed loads node)
      \<or> isl (process_entry loads dataset_name condition_name entry))"

section \<open>Evaluation rules\<close>

lemmas sanitizer_defs =
  fix_json_text_def match_token_def match_opt_minus_Inf_def boundary_def is_word_def

lemmas name_defs =
  extract_instance_name_def strip_extension_def startswith_def endswith_def

section \<open>The tolerant JSON parser: properties\<close>

lemma fix_json_text_standalone_tokens:
  "fix_json_text ''[NaN, Infinity, Inf, InfoValue]'' = ''[null, null, null, InfoValue]''"
  by (simp add: sanitizer_defs)

text \<open>
  C1. The parser is to turn every standalone \<^verbatim>\<open>NaN\<close>, \<^verbatim>\<open>Infinity\<close>, \<^verbatim>\<open>-Infinity\<close>,
  \<^verbatim>\<open>Inf\<close> and \<^verbatim>\<open>-Inf\<close> into a missing value and give a valid document. For the two
  negative tokens the code rewrites only the letters: \<^verbatim>\<open>Infinity\<close> is replaced before
  the pattern for \<^verbatim>\<open>-Infinity\<close> is tried, and \<^verbatim>\<open>\b\<close> does not hold between a bracket
  and the sign. The text handed to \<^verbatim>\<open>json.loads\<close> is \<^verbatim>\<open>[-null]\<close>, which is not JSON.
\<close>

theorem parse_custom_json_negative_infinity:
  "parse_custom_json loads ''[-Infinity]'' = loads ''[-null]''
   \<and> parse_custom_json loads ''[-Inf]'' = loads ''[-null]''"
  by (simp add: parse_custom_json_def sanitizer_defs)

section \<open>The instance type: properties\<close>

text \<open>
  C2. The instance type of a known dataset is to be the family code its name starts
  with. The pattern \<^verbatim>\<open>[CR][12]\<close> needs a digit in second place, so the five datasets
  of the families RC1 and RC2 get \<^verbatim>\<open>Unknown\<close>.
\<close>

theorem instance_type_of_known_datasets:
  "map instance_type_of datasets =
     [''C1'', ''C1'', ''C1'', ''C2'', ''R1'', ''R1'',
      ''Unknown'', ''Unknown'', ''Unknown'', ''Unknown'', ''Unknown'']"
  by (simp add: instance_type_of_def datasets_def)

section \<open>The summary fields: properties\<close>

lemmas table_defs =
  process_iteration_data_def core_arrays_def core_column_def nan_column_def add_stages_def
  stages_def add_cuts_def cut_fields_def sub_field_column_def add_cumulative_time_def
  column_def set_column_def iteration_column_def fillna0_def isna_def item_get_def

lemmas record_defs =
  build_record_def final_lb_of_def total_lp_time_of_def total_cuts_of_def dict_get_def
  py_sum_def py_add_def df_empty_def nrows_def

text \<open>
  C3. The extraction of the iteration table and of the scalar fields is never to raise;
  a missing entry is to give a missing result. The iteration table takes a \<^verbatim>\<open>null\<close> in
  an LP time list as zero, but \<^verbatim>\<open>sum\<close> over the same list raises \<^verbatim>\<open>TypeError\<close>, and
  with it the construction of the record.
\<close>

theorem build_record_null_lp_time_raises:
  "(case process_iteration_data
           [(''lblp_lower'', PList [PNum 1]), (''lp_time_LB'', PList [PNone]),
            (''lp_time_project'', PList [PNum (1/2)])] of
      Inl e \<Rightarrow> None
    | Inr df \<Rightarrow> column df ''cumulative_time'') = Some [PNum (1/2)]
   \<and> total_lp_time_of
        [(''lblp_lower'', PList [PNum 1]), (''lp_time_LB'', PList [PNone]),
         (''lp_time_project'', PList [PNum (1/2)])] = Inl TypeError
   \<and> build_record ds c f
        [(''lblp_lower'', PList [PNum 1]), (''lp_time_LB'', PList [PNone]),
         (''lp_time_project'', PList [PNum (1/2)])] = Inl TypeError"
  by (simp add: table_defs record_defs)

lemma build_record_final_lb:
  "build_record ds c f data = Inr r \<Longrightarrow> final_lb_of data = Inr (final_lb r)"
  by (auto simp: build_record_def split: sum.splits)

text \<open>
  C7, as the specification words it: \<open>final_lb\<close> is the last entry of \<^verbatim>\<open>lblp_lower\<close>
  that is not missing. The code takes the last entry as it is: after \<^verbatim>\<open>[10.0, null]\<close>
  the field is missing, although the last entry that is not missing is 10.
\<close>

theorem final_lb_not_last_non_missing:
  "final_lb_of [(''lblp_lower'', PList [PNum 10, PNone])] = Inr PNone
   \<and> last_non_missing [PNum 10, PNone] = PNum 10"
  by (simp add: final_lb_of_def dict_get_def last_non_missing_def isna_def)

text \<open>
  C7, amended: \<open>final_lb\<close> is the last entry of the list \<^verbatim>\<open>lblp_lower\<close>, missing or not;
  it is missing when the list is empty or the field is absent; and it is the value the
  record of the run holds.
\<close>

theorem final_lb_is_last_entry:
  "(map_of data ''lblp_lower'' = Some (PList xs) \<longrightarrow>
      final_lb_of data = Inr (if xs = [] then PNaN else last xs))
   \<and> (map_of data ''lblp_lower'' = None \<longrightarrow> final_lb_of data = Inr PNaN)
   \<and> (build_record ds c f data = Inr r \<longrightarrow> final_lb_of data = Inr (final_lb r))"
proof (intro conjI impI)
  assume "map_of data ''lblp_lower'' = Some (PList xs)"
  then show "final_lb_of data = Inr (if xs = [] then PNaN else last xs)"
    by (simp add: final_lb_of_def dict_get_def)
next
  assume "map_of data ''lblp_lower'' = None"
  then show "final_lb_of data = Inr PNaN"
    by (simp add: final_lb_of_def dict_get_def)
next
  assume "build_record ds c f data = Inr r"
  then show "final_lb_of data = Inr (final_lb r)"
    by (rule build_record_final_lb)
qed

theorem final_lb_is_last_entry_witness:
  "final_lb_of [(''lblp_lower'', PList [PNum 10, PNum 12, PNum 15])] = Inr (PNum 15)
   \<and> final_lb_of [(''lblp_lower'', PList [])] = Inr PNaN
   \<and> final_lb_of [] = Inr PNaN
   \<and> (\<exists>r. build_record ''C1_numCust_25'' ''normal'' ''jy_c101.json''
              [(''lblp_lower'', PList [PNum 10, PNum 12, PNum 15])] = Inr r
          \<and> final_lb r = PNum 15)"
proof -
  let ?d = "[(''lblp_lower'', PList [PNum 10, PNum 12, PNum 15])]"
  have a: "final_lb_of ?d = Inr (PNum 15)"
    using final_lb_is_last_entry[of ?d "[PNum 10, PNum 12, PNum 15]"] by simp
  have b: "final_lb_of [(''lblp_lower'', PList [])] = Inr PNaN"
    using final_lb_is_last_entry[of "[(''lblp_lower'', PList [])]" "[]"] by simp
  have c: "final_lb_of [] = Inr PNaN"
    using final_lb_is_last_entry[of "[]"] by simp
  obtain r where r: "build_record ''C1_numCust_25'' ''normal'' ''jy_c101.json'' ?d = Inr r"
    by (simp add: table_defs record_defs)
  with final_lb_is_last_entry[of ?d _ "''C1_numCust_25''" "''normal''" "''jy_c101.json''" r] a
  have "final_lb r = PNum 15" by simp
  with a b c r show ?thesis by blast
qed

section \<open>The cumulative time: properties\<close>

lemma cumulative_time_example:
  "(case process_iteration_data
           [(''lblp_lower'', PList [PNum 10, PNum 12]),
            (''lp_time_LB'', PList [PNum 1, PNum 2]),
            (''lp_time_project'', PList [PNum (1/2), PNone])] of
      Inl e \<Rightarrow> None
    | Inr df \<Rightarrow> column df ''cumulative_time'') = Some [PNum (3/2), PNum (7/2)]"
  by (simp add: table_defs)

text \<open>
  C5. The cumulative time is the running sum of the two LP times, a missing one counting
  as zero, and is to be missing in every row when one of the two lists is absent from the
  document. The loop over the core fields has given the table both columns before the
  test \<^verbatim>\<open>'lp_time_LB' in results_df.columns\<close> is made, so its \<^verbatim>\<open>else\<close> is never taken:
  with \<^verbatim>\<open>lp_time_project\<close> absent the column holds the running sum of \<^verbatim>\<open>lp_time_LB\<close>.
\<close>

theorem cumulative_time_with_absent_array:
  "(case process_iteration_data
           [(''lblp_lower'', PList [PNum 10, PNum 12]),
            (''lp_time_LB'', PList [PNum 1, PNum 2])] of
      Inl e \<Rightarrow> None
    | Inr df \<Rightarrow> column df ''cumulative_time'') = Some [PNum 1, PNum 3]"
  by (simp add: table_defs)

section \<open>The instance name: properties\<close>

text \<open>
  C9. The instance name is a function of the file name alone. After the extension is
  stripped the rules are tried in the order \<^verbatim>\<open>BACK_jy_\<close> prefix, \<^verbatim>\<open>_better\<close> suffix,
  \<^verbatim>\<open>jy_\<close> prefix, unchanged name, and the first that applies decides, whatever later
  rules would apply too. The four names of the specification give \<^verbatim>\<open>rc108_BACK\<close>,
  \<^verbatim>\<open>rc108_better\<close>, \<^verbatim>\<open>c101\<close> and \<^verbatim>\<open>c101\<close>.
\<close>

theorem extract_instance_name_rules:
  "(startswith (strip_extension filename) ''BACK_jy_'' \<longrightarrow>
      extract_instance_name filename =
        str_replace ''BACK_jy_'' [] (strip_extension filename) @ ''_BACK'')
   \<and> (\<not> startswith (strip_extension filename) ''BACK_jy_''
        \<and> endswith (strip_extension filename) ''_better'' \<longrightarrow>
      extract_instance_name filename =
        str_replace ''_better'' [] (str_replace ''jy_'' [] (strip_extension filename)) @ ''_better'')
   \<and> (\<not> startswith (strip_extension filename) ''BACK_jy_''
        \<and> \<not> endswith (strip_extension filename) ''_better''
        \<and> startswith (strip_extension filename) ''jy_'' \<longrightarrow>
      extract_instance_name filename = str_replace ''jy_'' [] (strip_extension filename))
   \<and> (\<not> startswith (strip_extension filename) ''BACK_jy_''
        \<and> \<not> endswith (strip_extension filename) ''_better''
        \<and> \<not> startswith (strip_extension filename) ''jy_'' \<longrightarrow>
      extract_instance_name filename = strip_extension filename)
   \<and> extract_instance_name ''BACK_jy_rc108.txt'' = ''rc108_BACK''
   \<and> extract_instance_name ''jy_rc108_better.json'' = ''rc108_better''
   \<and> extract_instance_name ''jy_c101.txt'' = ''c101''
   \<and> extract_instance_name ''c101.txt'' = ''c101''"
proof -
  have ex: "extract_instance_name ''BACK_jy_rc108.txt'' = ''rc108_BACK''"
    "extract_instance_name ''jy_rc108_better.json'' = ''rc108_better''"
    "extract_instance_name ''jy_c101.txt'' = ''c101''"
    "extract_instance_name ''c101.txt'' = ''c101''"
    by (simp_all add: name_defs)
  show ?thesis
    unfolding ex by (simp add: extract_instance_name_def Let_def)
qed

theorem extract_instance_name_rules_witness:
  "startswith (strip_extension ''BACK_jy_rc108_better.txt'') ''BACK_jy_''
   \<and> extract_instance_name ''BACK_jy_rc108_better.txt'' = ''rc108_better_BACK''
   \<and> \<not> startswith (strip_extension ''jy_rc108_better.json'') ''BACK_jy_''
   \<and> endswith (strip_extension ''jy_rc108_better.json'') ''_better''
   \<and> extract_instance_name ''jy_rc108_better.json'' = ''rc108_better''
   \<and> \<not> endswith (strip_extension ''jy_c101.txt'') ''_better''
   \<and> startswith (strip_extension ''jy_c101.txt'') ''jy_''
   \<and> extract_instance_name ''jy_c101.txt'' = ''c101''
   \<and> \<not> startswith (strip_extension ''c101.txt'') ''jy_''
   \<and> extract_instance_name ''c101.txt'' = ''c101''"
  using extract_instance_name_rules[of "''BACK_jy_rc108_better.txt''"]
        extract_instance_name_rules[of "''jy_rc108_better.json''"]
  by (simp add: strip_extension_def startswith_def endswith_def)

section \<open>The file read in a run directory: properties\<close>

text \<open>
  C10. For an entry that is a directory the loader reads the first of the \<^verbatim>\<open>.json\<close>
  entries followed by the \<^verbatim>\<open>.txt\<close> entries. Whatever the order of the listing, when
  the directory holds an entry with the extension \<^verbatim>\<open>.json\<close> the file read has that
  extension, and a file without it is read only when there is no such entry; it is then a
  \<^verbatim>\<open>.txt\<close> entry.
\<close>

theorem json_extension_takes_precedence:
  "((\<exists>e\<in>set children. endswith (fst e) ''.json'') \<longrightarrow>
      (\<exists>f rest. json_files children = f # rest \<and> f \<in> set children \<and> endswith (fst f) ''.json''))
   \<and> (json_files children = f # rest \<and> \<not> endswith (fst f) ''.json'' \<longrightarrow>
        endswith (fst f) ''.txt'' \<and> f \<in> set children
        \<and> (\<forall>e\<in>set children. \<not> endswith (fst e) ''.json''))
   \<and> process_entry loads ds c (name, Directory children) =
       (case json_files children of
          [] \<Rightarrow> Inr None
        | f # _ \<Rightarrow> after_read ds c name (read_one_file loads (snd f)))"
proof -
  have first: "\<exists>g gs. json_files children = g # gs \<and> g \<in> set children \<and> endswith (fst g) ''.json''"
    if "\<exists>e\<in>set children. endswith (fst e) ''.json''"
  proof -
    from that have "glob_suffix ''.json'' children \<noteq> []"
      by (auto simp: glob_suffix_def filter_empty_conv)
    then obtain g gs where fr: "glob_suffix ''.json'' children = g # gs"
      by (cases "glob_suffix ''.json'' children") auto
    then have "g \<in> set (glob_suffix ''.json'' children)" by simp
    then have "g \<in> set children" "endswith (fst g) ''.json''"
      by (auto simp: glob_suffix_def)
    with fr show ?thesis by (simp add: json_files_def)
  qed
  have second: "endswith (fst f) ''.txt'' \<and> f \<in> set children
        \<and> (\<forall>e\<in>set children. \<not> endswith (fst e) ''.json'')"
    if a: "json_files children = f # rest \<and> \<not> endswith (fst f) ''.json''"
  proof -
    have empty: "glob_suffix ''.json'' children = []"
    proof (cases "glob_suffix ''.json'' children")
      case Nil then show ?thesis .
    next
      case (Cons g gs)
      then have "g \<in> set (glob_suffix ''.json'' children)" by simp
      then have "endswith (fst g) ''.json''" by (auto simp: glob_suffix_def)
      moreover from a Cons have "f = g" by (simp add: json_files_def)
      ultimately show ?thesis using a by simp
    qed
    with a have "f \<in> set (glob_suffix ''.txt'' children)" by (simp add: json_files_def)
    then have "endswith (fst f) ''.txt''" "f \<in> set children" by (auto simp: glob_suffix_def)
    moreover from empty have "\<forall>e\<in>set children. \<not> endswith (fst e) ''.json''"
      by (auto simp: glob_suffix_def filter_empty_conv)
    ultimately show ?thesis by blast
  qed
  have third: "process_entry loads ds c (name, Directory children) =
       (case json_files children of
          [] \<Rightarrow> Inr None
        | f # _ \<Rightarrow> after_read ds c name (read_one_file loads (snd f)))"
    by (simp add: process_entry_def split: list.splits)
  from first second third show ?thesis by blast
qed

theorem json_extension_takes_precedence_witness:
  "(\<exists>e\<in>set [(''run.txt'', RegFile (Some ''[1]'')), (''run.json'', RegFile (Some ''[2]''))].
       endswith (fst e) ''.json'')
   \<and> json_files [(''run.txt'', RegFile (Some ''[1]'')), (''run.json'', RegFile (Some ''[2]''))]
       = [(''run.json'', RegFile (Some ''[2]'')), (''run.txt'', RegFile (Some ''[1]''))]
   \<and> json_files [(''run.json'', RegFile (Some ''[2]'')), (''run.txt'', RegFile (Some ''[1]''))]
       = [(''run.json'', RegFile (Some ''[2]'')), (''run.txt'', RegFile (Some ''[1]''))]
   \<and> json_files [(''run.txt'', RegFile (Some ''[1]''))] = [(''run.txt'', RegFile (Some ''[1]''))]
   \<and> \<not> endswith ''run.txt'' ''.json'' \<and> endswith ''run.txt'' ''.txt''"
  using json_extension_takes_precedence
          [of "[(''run.txt'', RegFile (Some ''[1]'')), (''run.json'', RegFile (Some ''[2]''))]"]
        json_extension_takes_precedence
          [of "[(''run.txt'', RegFile (Some ''[1]''))]" "(''run.txt'', RegFile (Some ''[1]''))" "[]"]
  by (simp add: json_files_def glob_suffix_def endswith_def)

section \<open>The core columns of the iteration table: properties\<close>

lemma column_set_column:
  "column (set_column b cells df) a = (if a = b then Some cells else column df a)"
  by (simp add: column_def set_column_def update_conv')

lemma set_column_keeps_head:
  "name \<noteq> k \<Longrightarrow> \<exists>rest'. set_column name cells ((k, c) # rest) = (k, c) # rest'"
  by (simp add: set_column_def)

lemma core_column_array:
  "array_or_absent data a \<Longrightarrow> core_column data n a = Inr (source_or_missing data n a)"
  by (auto simp: array_or_absent_def core_column_def source_or_missing_def
           split: option.splits pyval.splits)

lemma add_core_arrays_columns:
  "list_all (array_or_absent data) names \<Longrightarrow> distinct names \<Longrightarrow> k \<notin> set names \<Longrightarrow>
   \<exists>rest'. add_core_arrays data n names ((k, c) # rest) = Inr ((k, c) # rest')
      \<and> (\<forall>a\<in>set names. column ((k, c) # rest') a = Some (source_or_missing data n a))
      \<and> (\<forall>a. a \<notin> set names \<longrightarrow> column ((k, c) # rest') a = column ((k, c) # rest) a)"
proof (induction names arbitrary: rest)
  case Nil
  then show ?case by simp
next
  case (Cons a names)
  from Cons.prems have a: "array_or_absent data a" and rest_ok: "list_all (array_or_absent data) names"
    and d: "distinct names" and an: "a \<notin> set names" and ka: "a \<noteq> k" and kn: "k \<notin> set names"
    by auto
  from set_column_keeps_head[OF ka] obtain rest1 where
    r1: "set_column a (source_or_missing data n a) ((k, c) # rest) = (k, c) # rest1"
    by blast
  from Cons.IH[OF rest_ok d kn, of rest1] obtain rest' where
    s: "add_core_arrays data n names ((k, c) # rest1) = Inr ((k, c) # rest')"
    and cols: "\<forall>b\<in>set names. column ((k, c) # rest') b = Some (source_or_missing data n b)"
    and others: "\<forall>b. b \<notin> set names \<longrightarrow> column ((k, c) # rest') b = column ((k, c) # rest1) b"
    by blast
  have step: "add_core_arrays data n (a # names) ((k, c) # rest) = Inr ((k, c) # rest')"
    using s r1 by (simp add: core_column_array[OF a])
  from others an have "column ((k, c) # rest') a = column ((k, c) # rest1) a" by blast
  also have "\<dots> = Some (source_or_missing data n a)"
    unfolding r1[symmetric] by (simp add: column_set_column)
  finally have here: "column ((k, c) # rest') a = Some (source_or_missing data n a)" .
  have out: "\<forall>b. b \<notin> set (a # names) \<longrightarrow> column ((k, c) # rest') b = column ((k, c) # rest) b"
  proof (intro allI impI)
    fix b assume b: "b \<notin> set (a # names)"
    then have "column ((k, c) # rest') b = column ((k, c) # rest1) b" using others by simp
    also have "\<dots> = column ((k, c) # rest) b"
      unfolding r1[symmetric] using b by (simp add: column_set_column)
    finally show "column ((k, c) # rest') b = column ((k, c) # rest) b" .
  qed
  from step here cols out show ?case by auto
qed

lemma fillna0_numeric: "numeric_cell a \<Longrightarrow> \<exists>x. fillna0 a = PNum x"
  by (cases a) (simp_all add: fillna0_def isna_def)

lemma filled_sums_numeric:
  "list_all numeric_cell as \<Longrightarrow> list_all numeric_cell bs \<Longrightarrow> \<exists>zs. filled_sums as bs = Inr zs"
proof (induction as arbitrary: bs)
  case Nil
  then show ?case by simp
next
  case (Cons a as)
  show ?case
  proof (cases bs)
    case Nil
    then show ?thesis by simp
  next
    case (Cons b bs')
    with Cons.prems have "numeric_cell a" "numeric_cell b"
      and tl: "list_all numeric_cell as" "list_all numeric_cell bs'" by auto
    then obtain x y where xy: "fillna0 a = PNum x" "fillna0 b = PNum y"
      using fillna0_numeric by blast
    from Cons.IH[OF tl] obtain zs where "filled_sums as bs' = Inr zs" by blast
    with xy Cons show ?thesis by simp
  qed
qed

lemma source_or_missing_numeric:
  "numeric_array_or_absent data key \<Longrightarrow> list_all numeric_cell (source_or_missing data n key)"
  by (auto simp: numeric_array_or_absent_def source_or_missing_def nan_column_def list_all_iff
           split: option.splits pyval.splits)

lemma length_source_or_missing: "length (source_or_missing data n key) = n"
  by (simp add: source_or_missing_def nan_column_def split: option.splits pyval.splits)

lemma later_head:
  "\<exists>rest'. set_column ''cumulative_time'' cells (add_cuts data n (add_stages data n ((''iteration'', c) # rest)))
      = (''iteration'', c) # rest'"
  by (simp add: add_cuts_def add_stages_def stages_def cut_fields_def set_column_def)

lemma later_columns:
  "a \<notin> set [''start_timeGraph'', ''start_ngGraph'', ''compress_timeGraph'', ''compress_ngGraph'',
             ''split_timeGraph'', ''split_ngGraph'', ''cut_tot_cut_value'', ''cut_TOT_gen_cut'',
             ''cut_tot_time_opt'', ''cut_max_time_opt''] \<Longrightarrow>
   column (add_cuts data n (add_stages data n df)) a = column df a"
  by (simp add: add_cuts_def add_stages_def stages_def cut_fields_def column_set_column)

lemma core_not_later:
  "a \<in> set core_arrays \<Longrightarrow>
   a \<notin> set [''start_timeGraph'', ''start_ngGraph'', ''compress_timeGraph'', ''compress_ngGraph'',
             ''split_timeGraph'', ''split_ngGraph'', ''cut_tot_cut_value'', ''cut_TOT_gen_cut'',
             ''cut_tot_time_opt'', ''cut_max_time_opt''] \<and> a \<noteq> ''cumulative_time'' \<and> a \<noteq> ''iteration''"
  unfolding core_arrays_def by (elim disjE | simp)+

lemma length_iteration_column: "length (iteration_column n) = n"
  unfolding iteration_column_def length_map length_upt by simp

lemma nrows_head: "nrows ((k, c) # rest) = length c"
  by (simp add: nrows_def)

lemma process_iteration_data_empty:
  "map_of data ''lblp_lower'' = None \<or> map_of data ''lblp_lower'' = Some (PList []) \<Longrightarrow>
   process_iteration_data data = Inr []"
  by (auto simp: process_iteration_data_def)

lemma process_iteration_data_well_formed:
  assumes wf: "well_formed data"
    and lb: "map_of data ''lblp_lower'' = Some (PList xs)"
    and ne: "xs \<noteq> []"
  shows "\<exists>df. process_iteration_data data = Inr df \<and> nrows df = length xs
           \<and> (\<forall>a\<in>set core_arrays. column df a = Some (source_or_missing data (length xs) a))"
proof -
  let ?n = "length xs"
  let ?c = "iteration_column ?n"
  from wf have arrays: "list_all (array_or_absent data) core_arrays"
    and num_lb: "numeric_array_or_absent data ''lp_time_LB''"
    and num_pr: "numeric_array_or_absent data ''lp_time_project''"
    by (simp_all add: well_formed_def)
  have dist: "distinct core_arrays" "''iteration'' \<notin> set core_arrays"
    by (simp_all add: core_arrays_def)
  from add_core_arrays_columns[OF arrays dist, of ?n ?c "[]"] obtain rest1 where
    core: "add_core_arrays data ?n core_arrays [(''iteration'', ?c)] = Inr ((''iteration'', ?c) # rest1)"
    and cols: "\<forall>a\<in>set core_arrays. column ((''iteration'', ?c) # rest1) a = Some (source_or_missing data ?n a)"
    by blast
  let ?df1 = "(''iteration'', ?c) # rest1"
  let ?df2 = "add_cuts data ?n (add_stages data ?n ?df1)"
  have lp: "column ?df2 ''lp_time_LB'' = Some (source_or_missing data ?n ''lp_time_LB'')"
    "column ?df2 ''lp_time_project'' = Some (source_or_missing data ?n ''lp_time_project'')"
    using cols by (simp_all add: later_columns core_arrays_def)
  from filled_sums_numeric[OF source_or_missing_numeric[OF num_lb] source_or_missing_numeric[OF num_pr]]
  obtain zs where zs: "filled_sums (source_or_missing data ?n ''lp_time_LB'')
                          (source_or_missing data ?n ''lp_time_project'') = Inr zs"
    by blast
  let ?df = "set_column ''cumulative_time'' (map PNum (cumsum 0 zs)) ?df2"
  have cum: "add_cumulative_time ?n ?df2 = Inr ?df"
    by (simp add: add_cumulative_time_def lp zs)
  have res: "process_iteration_data data = Inr ?df"
    using lb ne core cum by (simp add: process_iteration_data_def)
  from later_head[of "map PNum (cumsum 0 zs)" data ?n ?c rest1] obtain rest' where
    "?df = (''iteration'', ?c) # rest'" by blast
  then have rows: "nrows ?df = ?n"
    by (simp only: nrows_head length_iteration_column)
  have keep: "\<forall>a\<in>set core_arrays. column ?df a = Some (source_or_missing data ?n a)"
  proof
    fix a assume a: "a \<in> set core_arrays"
    from core_not_later[OF a] have "column ?df a = column ?df1 a"
      by (simp add: column_set_column later_columns)
    with cols a show "column ?df a = Some (source_or_missing data ?n a)" by simp
  qed
  from res rows keep show ?thesis by blast
qed

text \<open>
  For a well-formed document whose \<^verbatim>\<open>lblp_lower\<close> is a list of \<open>N > 0\<close> entries the
  extraction returns a table of exactly \<open>N\<close> rows, and each of the six core columns is
  the source list itself when that list is present with exactly \<open>N\<close> entries, and \<open>N\<close>
  missing values otherwise: no column is filled in part, cut or padded. When
  \<^verbatim>\<open>lblp_lower\<close> is absent or empty the table is the empty one.
\<close>

lemma core_columns_of_well_formed:
  "(well_formed data \<and> map_of data ''lblp_lower'' = Some (PList xs) \<and> xs \<noteq> [] \<longrightarrow>
      (\<exists>df. process_iteration_data data = Inr df \<and> nrows df = length xs
         \<and> (\<forall>a\<in>set core_arrays.
               column df a = Some (source_or_missing data (length xs) a)
               \<and> length (source_or_missing data (length xs) a) = length xs)))
   \<and> (map_of data ''lblp_lower'' = None \<or> map_of data ''lblp_lower'' = Some (PList []) \<longrightarrow>
        process_iteration_data data = Inr [] \<and> df_empty [])"
  using process_iteration_data_well_formed[of data xs] process_iteration_data_empty[of data]
  by (simp add: length_source_or_missing df_empty_def)

lemma core_columns_of_well_formed_example:
  "well_formed [(''lblp_lower'', PList [PNum 10, PNum 12, PNum 15]), (''ub_lp'', PList [PNum 20, PNum 19])]
   \<and> (\<exists>df. process_iteration_data
               [(''lblp_lower'', PList [PNum 10, PNum 12, PNum 15]),
                (''ub_lp'', PList [PNum 20, PNum 19])] = Inr df
          \<and> nrows df = 3
          \<and> column df ''lblp_lower'' = Some [PNum 10, PNum 12, PNum 15]
          \<and> column df ''ub_lp'' = Some [PNaN, PNaN, PNaN]
          \<and> column df ''lp_time_LB'' = Some [PNaN, PNaN, PNaN])
   \<and> process_iteration_data [(''ub_lp'', PList [PNum 20, PNum 19])] = Inr []
   \<and> process_iteration_data [(''lblp_lower'', PList [])] = Inr []"
proof -
  let ?d = "[(''lblp_lower'', PList [PNum 10, PNum 12, PNum 15]), (''ub_lp'', PList [PNum 20, PNum 19])]"
  have wf: "well_formed ?d"
    by (simp add: well_formed_def array_or_absent_def numeric_array_or_absent_def core_arrays_def)
  have lb: "map_of ?d ''lblp_lower'' = Some (PList [PNum 10, PNum 12, PNum 15])" by simp
  have ne: "[PNum 10, PNum 12, PNum 15] \<noteq> []" by simp
  from core_columns_of_well_formed[of ?d "[PNum 10, PNum 12, PNum 15]"] wf lb ne
  have "\<exists>df. process_iteration_data ?d = Inr df \<and> nrows df = length [PNum 10, PNum 12, PNum 15]
         \<and> (\<forall>a\<in>set core_arrays.
               column df a = Some (source_or_missing ?d (length [PNum 10, PNum 12, PNum 15]) a)
               \<and> length (source_or_missing ?d (length [PNum 10, PNum 12, PNum 15]) a)
                   = length [PNum 10, PNum 12, PNum 15])"
    by blast
  then obtain df where df: "process_iteration_data ?d = Inr df" "nrows df = 3"
    and cols: "\<forall>a\<in>set core_arrays.
        column df a = Some (source_or_missing ?d (length [PNum 10, PNum 12, PNum 15]) a)"
    by auto
  from cols have "column df ''lblp_lower'' = Some [PNum 10, PNum 12, PNum 15]"
    "column df ''ub_lp'' = Some [PNaN, PNaN, PNaN]"
    "column df ''lp_time_LB'' = Some [PNaN, PNaN, PNaN]"
    by (simp_all add: core_arrays_def source_or_missing_def nan_column_def)
  with df have ex: "\<exists>df. process_iteration_data ?d = Inr df
          \<and> nrows df = 3
          \<and> column df ''lblp_lower'' = Some [PNum 10, PNum 12, PNum 15]
          \<and> column df ''ub_lp'' = Some [PNaN, PNaN, PNaN]
          \<and> column df ''lp_time_LB'' = Some [PNaN, PNaN, PNaN]" by blast
  have e1: "process_iteration_data [(''ub_lp'', PList [PNum 20, PNum 19])] = Inr []"
    using core_columns_of_well_formed[of "[(''ub_lp'', PList [PNum 20, PNum 19])]"] by simp
  have e2: "process_iteration_data [(''lblp_lower'', PList [])] = Inr []"
    using core_columns_of_well_formed[of "[(''lblp_lower'', PList [])]"] by simp
  from wf ex e1 e2 show ?thesis by blast
qed

lemma fix_json_text_nan_field:
  \<open>fix_json_text ''{"lblp_lower": [1, 2], "ub_lp": NaN}''
     = ''{"lblp_lower": [1, 2], "ub_lp": null}''\<close>
  by (simp add: sanitizer_defs)

text \<open>
  C4. For every document whose \<^verbatim>\<open>lblp_lower\<close> has \<open>N > 0\<close> entries the table is to
  have \<open>N\<close> rows, each core column being the source list when it is present with
  exactly \<open>N\<close> entries and missing in every row otherwise. The test of a core field is
  \<^verbatim>\<open>array_name in data and len(data[array_name]) == iterations\<close>: on a field that is
  \<^verbatim>\<open>null\<close>, which is what the parser makes of \<^verbatim>\<open>"ub_lp": NaN\<close>, \<^verbatim>\<open>len\<close> raises
  \<^verbatim>\<open>TypeError\<close> and there is no table at all. The fields of the problem sizes and of the
  cuts are tested with \<^verbatim>\<open>isinstance(.., list)\<close> first, and a \<^verbatim>\<open>null\<close> there gives
  columns of missing values.
\<close>

theorem process_iteration_data_null_core_field:
  "process_iteration_data
     [(''lblp_lower'', PList [PNum 1, PNum 2]), (''ub_lp'', PNone)] = Inl TypeError
   \<and> (case process_iteration_data
             [(''lblp_lower'', PList [PNum 1, PNum 2]), (''prob_sizes_at_start'', PNone)] of
        Inl e \<Rightarrow> None
      | Inr df \<Rightarrow> column df ''start_timeGraph'') = Some [PNaN, PNaN]"
  by (simp add: table_defs)

section \<open>The corpus loader: properties\<close>

lemma read_one_file_failed:
  "unreadable node \<or> parse_failed loads node \<Longrightarrow> read_one_file loads node = PDict []"
  by (auto simp: unreadable_def parse_failed_def read_one_file_def isl_def
           split: fsnode.splits option.splits sum.splits)

lemma failed_entry_no_record:
  assumes "failed_entry loads ds c entry"
  shows "process_entry loads ds c entry \<noteq> Inr (Some r)"
proof (cases "isl (process_entry loads ds c entry)")
  case True
  then show ?thesis by (auto simp: isl_def)
next
  case False
  with assms obtain node where n: "run_file entry = Some node"
    and bad: "unreadable node \<or> parse_failed loads node"
    by (auto simp: failed_entry_def split: option.splits)
  from read_one_file_failed[OF bad] have empty: "read_one_file loads node = PDict []" .
  from n have "process_entry loads ds c entry = after_read ds c (fst entry) (read_one_file loads node)"
    by (auto simp: run_file_def process_entry_def split: fsnode.splits list.splits)
  with empty show ?thesis by (simp add: after_read_def)
qed

lemma load_files_skip:
  "(\<forall>r. process_entry loads ds c bad \<noteq> Inr (Some r)) \<Longrightarrow>
   load_files loads ds c (pre @ bad # post) acc = load_files loads ds c (pre @ post) acc"
proof (induction pre arbitrary: acc)
  case Nil
  then show ?case by (auto split: sum.splits option.splits)
next
  case (Cons e pre)
  then show ?case by (auto split: sum.splits option.splits)
qed

lemma load_files_append_result:
  "load_files loads ds c entries acc = acc @ load_files loads ds c entries []"
proof (induction entries arbitrary: acc)
  case Nil
  then show ?case by simp
next
  case (Cons e entries)
  show ?case
  proof (cases "process_entry loads ds c e")
    case (Inl a)
    then show ?thesis using Cons.IH[of acc] by simp
  next
    case (Inr o1)
    show ?thesis
    proof (cases o1)
      case None
      with Inr show ?thesis using Cons.IH[of acc] by simp
    next
      case (Some r)
      with Inr show ?thesis using Cons.IH[of "acc @ [r]"] Cons.IH[of "[r]"] by simp
    qed
  qed
qed

lemma load_one_dataset:
  "load_ablation_data loads
     (Some (Directory [(''RC1_numCust_25'', Directory [(''normal'', Directory entries)])]))
   = Inr (load_files loads ''RC1_numCust_25'' ''normal'' (glob_prefix ''jy_'' entries) [])"
  by (simp add: load_ablation_data_def entries_of_def datasets_def base_conditions_def is_dir_def)

lemmas loader_defs =
  process_entry_def read_one_file_def parse_custom_json_def loads_table_def after_read_def

text \<open>
  C8. An entry whose file cannot be read or parsed, or whose extraction raises, adds no
  record and does not stop the loop: the catalog is the one the other entries give. A
  load where \<^verbatim>\<open>RC1_numCust_25/normal\<close> holds one run that gives a record and one failed
  entry returns a catalog of exactly that record, in either listing order.
\<close>

theorem failed_file_is_excluded:
  "(failed_entry loads ds c bad \<longrightarrow>
      load_files loads ds c (pre @ bad # post) acc = load_files loads ds c (pre @ post) acc)
   \<and> (process_entry loads ''RC1_numCust_25'' ''normal'' good = Inr (Some r)
        \<and> failed_entry loads ''RC1_numCust_25'' ''normal'' bad
        \<and> startswith (fst good) ''jy_'' \<and> startswith (fst bad) ''jy_'' \<longrightarrow>
      load_ablation_data loads
        (Some (Directory [(''RC1_numCust_25'', Directory [(''normal'', Directory [good, bad])])]))
        = Inr [r]
      \<and> load_ablation_data loads
        (Some (Directory [(''RC1_numCust_25'', Directory [(''normal'', Directory [bad, good])])]))
        = Inr [r])"
proof -
  have general: "load_files loads ds c (pre @ bad # post) acc = load_files loads ds c (pre @ post) acc"
    if "failed_entry loads ds c bad"
    using failed_entry_no_record[OF that] by (simp add: load_files_skip)
  have corpus: "load_ablation_data loads
        (Some (Directory [(''RC1_numCust_25'', Directory [(''normal'', Directory [good, bad])])]))
        = Inr [r]
      \<and> load_ablation_data loads
        (Some (Directory [(''RC1_numCust_25'', Directory [(''normal'', Directory [bad, good])])]))
        = Inr [r]"
    if g: "process_entry loads ''RC1_numCust_25'' ''normal'' good = Inr (Some r)"
      and b: "failed_entry loads ''RC1_numCust_25'' ''normal'' bad"
      and names: "startswith (fst good) ''jy_''" "startswith (fst bad) ''jy_''"
  proof -
    from failed_entry_no_record[OF b]
    have nb: "\<forall>r'. process_entry loads ''RC1_numCust_25'' ''normal'' bad \<noteq> Inr (Some r')" by blast
    have one: "load_files loads ''RC1_numCust_25'' ''normal'' [good] [] = [r]"
      using g by simp
    have "load_files loads ''RC1_numCust_25'' ''normal'' ([good] @ bad # []) []
            = load_files loads ''RC1_numCust_25'' ''normal'' ([good] @ []) []"
      by (rule load_files_skip[OF nb])
    with one have gb: "load_files loads ''RC1_numCust_25'' ''normal'' [good, bad] [] = [r]" by simp
    have "load_files loads ''RC1_numCust_25'' ''normal'' ([] @ bad # [good]) []
            = load_files loads ''RC1_numCust_25'' ''normal'' ([] @ [good]) []"
      by (rule load_files_skip[OF nb])
    with one have bg: "load_files loads ''RC1_numCust_25'' ''normal'' [bad, good] [] = [r]" by simp
    from names have "glob_prefix ''jy_'' [good, bad] = [good, bad]"
      "glob_prefix ''jy_'' [bad, good] = [bad, good]"
      by (simp_all add: glob_prefix_def)
    with gb bg show ?thesis by (simp add: load_one_dataset)
  qed
  from general corpus show ?thesis by blast
qed

theorem failed_file_is_excluded_witness:
  \<open>\<exists>r. load_ablation_data (loads_table [(''{"lblp_lower": [10]}'', PDict [(''lblp_lower'', PList [PNum 10])])])
        (Some (Directory [(''RC1_numCust_25'', Directory [(''normal'', Directory
           [(''jy_c101.json'', RegFile (Some ''{"lblp_lower": [10]}'')),
            (''jy_c102.json'', RegFile (Some ''{"lblp_lower": [10''))])])]))
        = Inr [r]
     \<and> load_ablation_data (loads_table [(''{"lblp_lower": [10]}'', PDict [(''lblp_lower'', PList [PNum 10])])])
        (Some (Directory [(''RC1_numCust_25'', Directory [(''normal'', Directory
           [(''jy_c102.json'', RegFile (Some ''{"lblp_lower": [10'')),
            (''jy_c101.json'', RegFile (Some ''{"lblp_lower": [10]}''))])])]))
        = Inr [r]
     \<and> load_files (loads_table [(''{"lblp_lower": [10]}'', PDict [(''lblp_lower'', PList [PNum 10])])])
          ''RC1_numCust_25'' ''normal''
          [(''jy_c103.json'', RegFile None),
           (''jy_c101.json'', RegFile (Some ''{"lblp_lower": [10]}''))] []
        = [r]
     \<and> instance_name r = ''c101'' \<and> iterations r = 1\<close>
proof -
  let ?loads = \<open>loads_table [(''{"lblp_lower": [10]}'', PDict [(''lblp_lower'', PList [PNum 10])])]\<close>
  let ?good = \<open>(''jy_c101.json'', RegFile (Some ''{"lblp_lower": [10]}''))\<close>
  let ?bad = \<open>(''jy_c102.json'', RegFile (Some ''{"lblp_lower": [10''))\<close>
  let ?gone = "(''jy_c103.json'', RegFile None)"
  have text_ok: \<open>fix_json_text ''{"lblp_lower": [10]}'' = ''{"lblp_lower": [10]}''\<close>
    by (simp add: sanitizer_defs)
  have text_bad: \<open>fix_json_text ''{"lblp_lower": [10'' = ''{"lblp_lower": [10''\<close>
    by (simp add: sanitizer_defs)
  obtain r where r: "process_entry ?loads ''RC1_numCust_25'' ''normal'' ?good = Inr (Some r)"
    and fields: "instance_name r = ''c101''" "iterations r = 1"
    by (simp add: loader_defs text_ok table_defs record_defs name_defs)
  have bad: "failed_entry ?loads ''RC1_numCust_25'' ''normal'' ?bad"
    by (simp add: failed_entry_def run_file_def parse_failed_def parse_custom_json_def
                  loads_table_def text_bad)
  have gone: "failed_entry ?loads ''RC1_numCust_25'' ''normal'' ?gone"
    by (simp add: failed_entry_def run_file_def unreadable_def)
  have names: "startswith (fst ?good) ''jy_''" "startswith (fst ?bad) ''jy_''"
    by (simp_all add: startswith_def)
  from failed_file_is_excluded[of ?loads _ _ ?bad _ _ _ ?good r] r bad names
  have a: "load_ablation_data ?loads
        (Some (Directory [(''RC1_numCust_25'', Directory [(''normal'', Directory [?good, ?bad])])]))
        = Inr [r]"
    and b: "load_ablation_data ?loads
        (Some (Directory [(''RC1_numCust_25'', Directory [(''normal'', Directory [?bad, ?good])])]))
        = Inr [r]"
    by blast+
  from failed_file_is_excluded[of ?loads "''RC1_numCust_25''" "''normal''" ?gone "[]" "[?good]" "[]"] gone
  have "load_files ?loads ''RC1_numCust_25'' ''normal'' [?gone, ?good] []
          = load_files ?loads ''RC1_numCust_25'' ''normal'' [?good] []"
    by simp
  with r have c: "load_files ?loads ''RC1_numCust_25'' ''normal'' [?gone, ?good] [] = [r]"
    by simp
  from a b c fields show ?thesis by blast
qed

lemma process_iteration_data_no_iterations:
  "map_of data ''lblp_lower'' = None
     \<or> (\<exists>v. map_of data ''lblp_lower'' = Some v \<and> py_len v = Inr 0) \<Longrightarrow>
   process_iteration_data data = Inr []"
  by (auto simp: process_iteration_data_def)

lemma final_lb_no_iterations:
  "map_of data ''lblp_lower'' = None
     \<or> (\<exists>v. map_of data ''lblp_lower'' = Some v \<and> py_len v = Inr 0) \<Longrightarrow>
   final_lb_of data = Inr PNaN"
proof (erule disjE)
  assume "map_of data ''lblp_lower'' = None"
  then show ?thesis by (simp add: final_lb_of_def dict_get_def)
next
  assume "\<exists>v. map_of data ''lblp_lower'' = Some v \<and> py_len v = Inr 0"
  then obtain v where v: "map_of data ''lblp_lower'' = Some v" "py_len v = Inr 0" by blast
  then have "\<not> truthy v" by (cases v) auto
  with v show ?thesis by (simp add: final_lb_of_def dict_get_def)
qed

lemma len_no_iterations:
  "map_of data ''lblp_lower'' = None
     \<or> (\<exists>v. map_of data ''lblp_lower'' = Some v \<and> py_len v = Inr 0) \<Longrightarrow>
   py_len (dict_get data ''lblp_lower'' (PList [])) = Inr 0"
  by (auto simp: dict_get_def)

text \<open>
  C6, as the specification words it: a run whose \<^verbatim>\<open>lblp_lower\<close> is absent or empty is
  skipped and adds no record. The code returns the empty table for it and goes on to
  build the record: a document that holds only \<^verbatim>\<open>OUR_ilp_time\<close> gives a catalog of one
  record.
\<close>

theorem empty_run_is_recorded:
  \<open>process_iteration_data [(''OUR_ilp_time'', PNum 3)] = Inr []
   \<and> length (load_files
        (loads_table [(''{"OUR_ilp_time": 3}'', PDict [(''OUR_ilp_time'', PNum 3)])])
        ''C1_numCust_25'' ''normal''
        [(''jy_c101.json'', RegFile (Some ''{"OUR_ilp_time": 3}''))] []) = 1\<close>
proof -
  have text_ok: \<open>fix_json_text ''{"OUR_ilp_time": 3}'' = ''{"OUR_ilp_time": 3}''\<close>
    by (simp add: sanitizer_defs)
  show ?thesis
    by (simp add: loader_defs text_ok table_defs record_defs)
qed

text \<open>
  C6, amended: for a document that is a non-empty object with \<^verbatim>\<open>lblp_lower\<close> absent
  or of length zero the extraction returns the empty table, and, when the LP time sums
  are defined, the loader appends one record for the run, with no iterations, a missing
  final lower bound, no cuts and the empty table.
\<close>

theorem run_without_iterations_is_recorded:
  assumes parsed: "loads (fix_json_text content) = Inr (PDict data)"
    and nonempty: "data \<noteq> []"
    and none: "map_of data ''lblp_lower'' = None
                \<or> (\<exists>v. map_of data ''lblp_lower'' = Some v \<and> py_len v = Inr 0)"
    and lp: "total_lp_time_of data = Inr t"
  shows "process_iteration_data data = Inr []
     \<and> (\<exists>r. load_files loads ds c [(f, RegFile (Some content))] acc = acc @ [r]
            \<and> iterations r = 0 \<and> final_lb r = PNaN \<and> total_lp_time r = t
            \<and> total_cuts r = PNum 0 \<and> iteration_data r = [])"
proof -
  have table: "process_iteration_data data = Inr []"
    by (rule process_iteration_data_no_iterations[OF none])
  have cuts: "total_cuts_of [] = Inr (PNum 0)"
    by (simp add: total_cuts_of_def df_empty_def)
  let ?r = "\<lparr> dataset = ds, num_cust = num_cust_of ds, instance_type = instance_type_of ds,
              condition = c, instance_name = extract_instance_name f,
              root_lp = dict_get data ''ROOT_LP_PRIOR_ADDING_CUTS'' PNaN,
              final_lb = PNaN,
              ilp_objective = dict_get data ''OUR_ilp_objective'' PNaN,
              ilp_time = dict_get data ''OUR_ilp_time'' PNaN,
              total_lp_time = t, iterations = 0, total_cuts = PNum 0,
              iteration_data = [] \<rparr>"
  have rec: "build_record ds c f data = Inr ?r"
    by (simp add: build_record_def table final_lb_no_iterations[OF none] lp
                  len_no_iterations[OF none] cuts)
  have "process_entry loads ds c (f, RegFile (Some content)) = Inr (Some ?r)"
    using parsed nonempty rec
    by (simp add: process_entry_def read_one_file_def parse_custom_json_def after_read_def)
  then have "load_files loads ds c [(f, RegFile (Some content))] acc = acc @ [?r]"
    by simp
  with table show ?thesis by auto
qed

theorem run_without_iterations_is_recorded_witness:
  \<open>process_iteration_data [(''OUR_ilp_time'', PNum 3)] = Inr []
   \<and> (\<exists>r. load_files
        (loads_table [(''{"OUR_ilp_time": 3}'', PDict [(''OUR_ilp_time'', PNum 3)])])
        ''C1_numCust_25'' ''normal''
        [(''jy_c101.json'', RegFile (Some ''{"OUR_ilp_time": 3}''))] [] = [r]
      \<and> iterations r = 0 \<and> final_lb r = PNaN \<and> total_lp_time r = PNum 0
      \<and> total_cuts r = PNum 0 \<and> iteration_data r = [])\<close>
proof -
  let ?data = "[(''OUR_ilp_time'', PNum 3)]"
  have parsed: \<open>loads_table [(''{"OUR_ilp_time": 3}'', PDict [(''OUR_ilp_time'', PNum 3)])]
                  (fix_json_text ''{"OUR_ilp_time": 3}'') = Inr (PDict ?data)\<close>
    by (simp add: sanitizer_defs loads_table_def)
  have nonempty: "?data \<noteq> []" by simp
  have none: "map_of ?data ''lblp_lower'' = None
                \<or> (\<exists>v. map_of ?data ''lblp_lower'' = Some v \<and> py_len v = Inr 0)"
    by simp
  have lp: "total_lp_time_of ?data = Inr (PNum 0)"
    by (simp add: total_lp_time_of_def dict_get_def py_sum_def py_add_def)
  from run_without_iterations_is_recorded
         [of \<open>loads_table [(''{"OUR_ilp_time": 3}'', PDict [(''OUR_ilp_time'', PNum 3)])]\<close>
             \<open>''{"OUR_ilp_time": 3}''\<close> ?data "PNum 0"
             "''C1_numCust_25''" "''normal''" "''jy_c101.json''" "[]",
          OF parsed nonempty none lp]
  show ?thesis by simp
qed

end
